theory Spec2Isabelle
  imports Main
begin

section \<open>The bridging header \<^verbatim>\<open>Ghostty-header.h\<close>\<close>

text \<open>
  The repository consists of one file, the header \<^verbatim>\<open>Ghostty-header.h\<close>. It is embedded
  as the text it is stored as: its eighteen lines, joined by line feeds (the last line
  has no line feed after it). Everything below is computed from this text: the lines,
  the directive each line is, and what a preprocessor does with them.
\<close>

definition eol :: string where
  "eol = [CHR 0x0A]"

definition Ghostty_header_text :: string where
  \<open>Ghostty_header_text = concat
    [''//'', eol,
     ''//  Ghostty-header.h'', eol,
     ''//  CodMate'', eol,
     ''//'', eol,
     ''//  Bridging header to expose Ghostty C API to Swift'', eol,
     ''//'', eol,
     '''', eol,
     ''#ifndef Ghostty_header_h'', eol,
     ''#define Ghostty_header_h'', eol,
     '''', eol,
     ''// Import the main Ghostty C API'', eol,
     ''// Note: ghostty.h already includes all necessary definitions'', eol,
     ''// Do NOT include ghostty/vt.h as it causes duplicate enum definitions'', eol,
     ''// NOTE: This file is excluded from Package.swift and may not be in use.'', eol,
     ''// The correct path is now ghostty/Vendor/include/ghostty.h'', eol,
     ''#import "ghostty/Vendor/include/ghostty.h"'', eol,
     '''', eol,
     ''#endif /* Ghostty_header_h */'']\<close>

subsection \<open>Lines\<close>

text \<open>
  A line ends at a line feed or at the end of the text; a text that ends in a line feed
  has no further, empty line after it.
\<close>

function split_lines :: "string \<Rightarrow> string list" where
  "split_lines [] = []"
| "split_lines (c # cs) =
     takeWhile (\<lambda>x. x \<noteq> CHR 0x0A) (c # cs)
       # split_lines (drop 1 (dropWhile (\<lambda>x. x \<noteq> CHR 0x0A) (c # cs)))"
  by pat_completeness auto
termination
proof (relation "measure length")
  show "wf (measure length)"
    by simp
next
  fix c :: char and cs :: string
  let ?rest = "dropWhile (\<lambda>x. x \<noteq> CHR 0x0A) (c # cs)"
  have "length ?rest \<le> length (c # cs)"
    by (rule length_dropWhile_le)
  moreover have "?rest \<noteq> [] \<Longrightarrow> length (drop 1 ?rest) < length ?rest"
    by simp
  ultimately have "length (drop 1 ?rest) < length (c # cs)"
    by (cases "?rest = []") auto
  then show "(drop 1 ?rest, c # cs) \<in> measure length"
    by simp
qed


subsection \<open>Directives\<close>

text \<open>
  What one line is to the preprocessor. \<open>Code\<close> is a line of C tokens, which the
  preprocessor passes on to the compiler; \<open>Unknown\<close> is a \<^verbatim>\<open>#\<close> line that is none of
  the directives interpreted here.
\<close>

datatype directive =
    Blank
  | Comment string
  | Ifndef string
  | Define string string
  | Undef string
  | Endif
  | Import string
  | Include string
  | Unknown string
  | Code string

definition is_space :: "char \<Rightarrow> bool" where
  "is_space c = (c = CHR '' '' \<or> c = CHR 0x09)"

definition is_ident_char :: "char \<Rightarrow> bool" where
  "is_ident_char c =
     (let n = (of_char c :: nat) in
        (65 \<le> n \<and> n \<le> 90) \<or> (97 \<le> n \<and> n \<le> 122) \<or> (48 \<le> n \<and> n \<le> 57) \<or> n = 95)"

definition ltrim :: "string \<Rightarrow> string" where
  "ltrim = dropWhile is_space"

definition rtrim :: "string \<Rightarrow> string" where
  "rtrim t = rev (dropWhile is_space (rev t))"

text \<open>
  The file name of an inclusion directive: the text between double quotes, or between
  angle brackets. \<open>None\<close> when the argument is neither.
\<close>

definition header_name :: "string \<Rightarrow> string option" where
  "header_name arg =
     (case arg of
        [] \<Rightarrow> None
      | c # cs \<Rightarrow>
          if c = CHR 0x22 \<and> CHR 0x22 \<in> set cs then Some (takeWhile (\<lambda>x. x \<noteq> CHR 0x22) cs)
          else if c = CHR ''<'' \<and> CHR ''>'' \<in> set cs then Some (takeWhile (\<lambda>x. x \<noteq> CHR ''>'') cs)
          else None)"

definition parse_directive :: "string \<Rightarrow> directive" where
  "parse_directive t =
     (let r = ltrim t;
          kw = takeWhile is_ident_char r;
          arg = ltrim (dropWhile is_ident_char r);
          name = takeWhile is_ident_char arg
      in if kw = ''ifndef'' \<and> name \<noteq> [] then Ifndef name
         else if kw = ''define'' \<and> name \<noteq> [] then
           Define name (rtrim (ltrim (dropWhile is_ident_char arg)))
         else if kw = ''undef'' \<and> name \<noteq> [] then Undef name
         else if kw = ''endif'' then Endif
         else if kw = ''import'' then
           (case header_name arg of Some p \<Rightarrow> Import p | None \<Rightarrow> Unknown t)
         else if kw = ''include'' then
           (case header_name arg of Some p \<Rightarrow> Include p | None \<Rightarrow> Unknown t)
         else Unknown t)"

definition parse_line :: "string \<Rightarrow> directive" where
  "parse_line l =
     (let t = ltrim l
      in case t of
           [] \<Rightarrow> Blank
         | c # cs \<Rightarrow>
             if take 2 t = ''//'' then Comment (drop 2 t)
             else if c = CHR ''#'' then parse_directive cs
             else Code t)"

subsection \<open>Logical lines\<close>

text \<open>
  Before a text is read line by line, the preprocessor joins each line that ends in a
  backslash with the next one, and replaces each comment by a space. A block comment
  may span lines, so a directive inside one is no directive, and a directive may follow
  one on its line. A \<^verbatim>\<open>//\<close> comment after other text on its line is dropped; one that
  is alone on its line is kept as it is written, so that what it says can be read
  (\<open>parse_line\<close> makes it a \<open>Comment\<close>, which the preprocessor skips). Comment
  signs inside string and character literals are no comments; a quote that is not
  closed on its line starts no literal.
\<close>

fun splice :: "string \<Rightarrow> string" where
  "splice (c # d # cs) =
     (if c = CHR 0x5C \<and> d = CHR 0x0A then splice cs else c # splice (d # cs))"
| "splice cs = cs"

datatype lex_mode = Plain | Block | Kept | Dropped | Quoted char

text \<open>Whether the quote \<open>q\<close> is closed in \<open>cs\<close> before the line ends.\<close>

fun closes :: "char \<Rightarrow> string \<Rightarrow> bool" where
  "closes q [] = False"
| "closes q (c # cs) =
     (if c = CHR 0x0A then False
      else if c = q then True
      else if c = CHR 0x5C then closes q (drop 1 cs)
      else closes q cs)"

definition emit :: "char \<Rightarrow> string \<times> bool \<Rightarrow> string \<times> bool" where
  "emit c r = (c # fst r, snd r)"

text \<open>
  \<open>decomment m fresh t\<close> reads \<open>t\<close> in mode \<open>m\<close>; \<open>fresh\<close> says that only white space
  has been read on the current line. It returns the text without its comments, and
  whether the text ended inside a block comment.
\<close>

fun decomment :: "lex_mode \<Rightarrow> bool \<Rightarrow> string \<Rightarrow> string \<times> bool" where
  "decomment m fresh [] = ([], m = Block)"
| "decomment Plain fresh (c # cs) =
     (if c = CHR ''/'' \<and> take 1 cs = ''*'' then decomment Block fresh (drop 1 cs)
      else if c = CHR ''/'' \<and> take 1 cs = ''/'' then
        (if fresh then emit c (decomment Kept fresh cs) else decomment Dropped fresh cs)
      else if (c = CHR 0x22 \<or> c = CHR 0x27) \<and> closes c cs
        then emit c (decomment (Quoted c) False cs)
      else if c = CHR 0x0A then emit c (decomment Plain True cs)
      else emit c (decomment Plain (fresh \<and> is_space c) cs))"
| "decomment Block fresh (c # cs) =
     (if c = CHR ''*'' \<and> take 1 cs = ''/''
      then emit (CHR '' '') (decomment Plain fresh (drop 1 cs))
      else decomment Block fresh cs)"
| "decomment Kept fresh (c # cs) =
     emit c (decomment (if c = CHR 0x0A then Plain else Kept) True cs)"
| "decomment Dropped fresh (c # cs) =
     (if c = CHR 0x0A then emit c (decomment Plain True cs) else decomment Dropped fresh cs)"
| "decomment (Quoted q) fresh (c # cs) =
     (if c = CHR 0x5C \<and> cs \<noteq> [] \<and> hd cs \<noteq> CHR 0x0A
      then emit c (emit (hd cs) (decomment (Quoted q) False (tl cs)))
      else if c = q then emit c (decomment Plain False cs)
      else if c = CHR 0x0A then emit c (decomment Plain True cs)
      else emit c (decomment (Quoted q) False cs))"

definition logical_lines :: "string \<Rightarrow> string list" where
  "logical_lines t = split_lines (fst (decomment Plain True (splice t)))"

definition unterminated_comment :: "string \<Rightarrow> bool" where
  "unterminated_comment t = snd (decomment Plain True (splice t))"

definition directives_of :: "string \<Rightarrow> directive list" where
  "directives_of t = map parse_line (logical_lines t)"

definition Ghostty_header_directives :: "directive list" where
  "Ghostty_header_directives = directives_of Ghostty_header_text"

subsection \<open>Kinds of directive\<close>

fun is_remark :: "directive \<Rightarrow> bool" where
  "is_remark Blank = True"
| "is_remark (Comment c) = True"
| "is_remark x = False"

fun is_inclusion :: "directive \<Rightarrow> bool" where
  "is_inclusion (Import p) = True"
| "is_inclusion (Include p) = True"
| "is_inclusion x = False"

fun is_definition :: "directive \<Rightarrow> bool" where
  "is_definition (Define m b) = True"
| "is_definition (Undef m) = True"
| "is_definition x = False"

fun is_code :: "directive \<Rightarrow> bool" where
  "is_code (Code t) = True"
| "is_code (Unknown t) = True"
| "is_code x = False"

section \<open>The preprocessor\<close>

text \<open>
  The header's only behaviour is what a preprocessor does with it, so the directives are
  given their meaning: conditional inclusion, macro definition, and \<^verbatim>\<open>#include\<close> and
  \<^verbatim>\<open>#import\<close> as clang implements them.

  The state is what a translation unit has accumulated so far: the macros defined (with
  their replacement text), the files marked to be entered once only, the trace of
  events, and the lines of C handed to the compiler.
\<close>

datatype event = Opened string | Defined string | Undefined string

record pp_state =
  macros :: "string \<rightharpoonup> string"
  imported :: "string list"
  trace :: "event list"
  emitted :: "string list"

datatype pp_error =
    UnbalancedEndif
  | UnterminatedConditional
  | InvalidDirective string
  | IncludeTooDeep string
  | UnterminatedComment

definition initial_state :: pp_state where
  "initial_state = \<lparr>macros = Map.empty, imported = [], trace = [], emitted = []\<rparr>"

text \<open>
  The files of the repository, by the name a directive gives them. Any other file is
  outside the repository (the vendored library's headers are): the preprocessor opens
  it, which the trace records, and its text is not interpreted.
\<close>

definition repository_file :: "string \<Rightarrow> string option" where
  "repository_file p = (if p = ''Ghostty-header.h'' then Some Ghostty_header_text else None)"

text \<open>
  The stack of open conditionals holds, for each, whether its group is being processed;
  a group inside a skipped group is skipped.
\<close>

definition active :: "bool list \<Rightarrow> bool" where
  "active st = (case st of [] \<Rightarrow> True | b # _ \<Rightarrow> b)"

definition define_macro :: "string \<Rightarrow> string \<Rightarrow> pp_state \<Rightarrow> pp_state" where
  "define_macro m b s = s\<lparr>macros := (macros s)(m \<mapsto> b), trace := trace s @ [Defined m]\<rparr>"

definition undef_macro :: "string \<Rightarrow> pp_state \<Rightarrow> pp_state" where
  "undef_macro m s = s\<lparr>macros := (macros s)(m := None), trace := trace s @ [Undefined m]\<rparr>"

definition mark_once :: "string \<Rightarrow> pp_state \<Rightarrow> pp_state" where
  "mark_once p s = (if p \<in> set (imported s) then s else s\<lparr>imported := imported s @ [p]\<rparr>)"

text \<open>
  \<open>exec d ds st s\<close> processes the directives \<open>ds\<close> of one file, with \<open>st\<close> the open
  conditionals and \<open>d\<close> the number of further files that may be nested inside this one
  (compilers bound the nesting; clang and gcc stop at 200).

  \<^verbatim>\<open>#import\<close> marks the file as once-only and enters it unless it has been entered
  before, by either directive; \<^verbatim>\<open>#include\<close> enters the file unless it is marked
  once-only.
\<close>

fun exec :: "nat \<Rightarrow> directive list \<Rightarrow> bool list \<Rightarrow> pp_state \<Rightarrow> pp_error + pp_state"
and open_file :: "nat \<Rightarrow> string \<Rightarrow> pp_state \<Rightarrow> pp_error + pp_state" where
  "exec d [] st s = (if st = [] then Inr s else Inl UnterminatedConditional)"
| "exec d (Blank # ds) st s = exec d ds st s"
| "exec d (Comment c # ds) st s = exec d ds st s"
| "exec d (Ifndef m # ds) st s = exec d ds ((active st \<and> macros s m = None) # st) s"
| "exec d (Endif # ds) st s =
     (case st of [] \<Rightarrow> Inl UnbalancedEndif | b # st' \<Rightarrow> exec d ds st' s)"
| "exec d (Define m b # ds) st s = exec d ds st (if active st then define_macro m b s else s)"
| "exec d (Undef m # ds) st s = exec d ds st (if active st then undef_macro m s else s)"
| "exec d (Include p # ds) st s =
     (if active st \<and> p \<notin> set (imported s) then
        (case open_file d p s of Inl e \<Rightarrow> Inl e | Inr s' \<Rightarrow> exec d ds st s')
      else exec d ds st s)"
| "exec d (Import p # ds) st s =
     (if active st then
        (if Opened p \<in> set (trace s) then exec d ds st (mark_once p s)
         else (case open_file d p (mark_once p s) of
                 Inl e \<Rightarrow> Inl e
               | Inr s' \<Rightarrow> exec d ds st s'))
      else exec d ds st s)"
| "exec d (Unknown t # ds) st s =
     (if active st then Inl (InvalidDirective t) else exec d ds st s)"
| "exec d (Code t # ds) st s =
     exec d ds st (if active st then s\<lparr>emitted := emitted s @ [t]\<rparr> else s)"
| "open_file d p s =
     (let s1 = s\<lparr>trace := trace s @ [Opened p]\<rparr>
      in case repository_file p of
           None \<Rightarrow> Inr s1
         | Some text \<Rightarrow>
             if d = 0 then Inl (IncludeTooDeep p)
             else if unterminated_comment text then Inl UnterminatedComment
             else exec (d - 1) (directives_of text) [] s1)"

text \<open>
  A translation unit is the lines of its main file, each ended by a line feed; \<open>d\<close>
  bounds the nesting below it.
\<close>

definition preprocess :: "nat \<Rightarrow> string list \<Rightarrow> pp_state \<Rightarrow> pp_error + pp_state" where
  "preprocess d ls s =
     (let t = concat (map (\<lambda>l. l @ eol) ls)
      in if unterminated_comment t then Inl UnterminatedComment
         else exec d (directives_of t) [] s)"

text \<open>The events a run added to the trace, and the files among them.\<close>

definition new_events :: "pp_state \<Rightarrow> pp_state \<Rightarrow> event list" where
  "new_events s s' = drop (length (trace s)) (trace s')"

fun opened :: "event list \<Rightarrow> string list" where
  "opened [] = []"
| "opened (Opened p # es) = p # opened es"
| "opened (e # es) = opened es"


section \<open>What the file is\<close>


lemma Ghostty_header_parsed:
  "Ghostty_header_directives =
    [Comment '''',
     Comment ''  Ghostty-header.h'',
     Comment ''  CodMate'',
     Comment '''',
     Comment ''  Bridging header to expose Ghostty C API to Swift'',
     Comment '''',
     Blank,
     Ifndef ''Ghostty_header_h'',
     Define ''Ghostty_header_h'' '''',
     Blank,
     Comment '' Import the main Ghostty C API'',
     Comment '' Note: ghostty.h already includes all necessary definitions'',
     Comment '' Do NOT include ghostty/vt.h as it causes duplicate enum definitions'',
     Comment '' NOTE: This file is excluded from Package.swift and may not be in use.'',
     Comment '' The correct path is now ghostty/Vendor/include/ghostty.h'',
     Import ''ghostty/Vendor/include/ghostty.h'',
     Blank,
     Endif]"
  by code_simp


section \<open>What the preprocessor does with the header\<close>

lemma Ghostty_header_comments_closed:
  "\<not> unterminated_comment Ghostty_header_text"
  by code_simp

lemma enter_header:
  "open_file (Suc d) ''Ghostty-header.h'' s =
     Inr (if macros s ''Ghostty_header_h'' \<noteq> None then
            s\<lparr>trace := trace s @ [Opened ''Ghostty-header.h'']\<rparr>
          else if Opened ''ghostty/Vendor/include/ghostty.h'' \<in> set (trace s) then
            mark_once ''ghostty/Vendor/include/ghostty.h''
              (s\<lparr>macros := (macros s)(''Ghostty_header_h'' \<mapsto> []),
                 trace := trace s @ [Opened ''Ghostty-header.h'', Defined ''Ghostty_header_h'']\<rparr>)
          else
            (mark_once ''ghostty/Vendor/include/ghostty.h''
              (s\<lparr>macros := (macros s)(''Ghostty_header_h'' \<mapsto> []),
                 trace := trace s @ [Opened ''Ghostty-header.h'', Defined ''Ghostty_header_h'']\<rparr>))
            \<lparr>trace := trace s @ [Opened ''Ghostty-header.h'', Defined ''Ghostty_header_h'',
                                Opened ''ghostty/Vendor/include/ghostty.h'']\<rparr>)"
  using Ghostty_header_parsed Ghostty_header_comments_closed
  by (simp add: Ghostty_header_directives_def repository_file_def active_def
      define_macro_def mark_once_def Let_def)

section \<open>Claims about the text of the file\<close>

text \<open>
  C2. The file contains exactly one inclusion directive, an \<^verbatim>\<open>#import\<close> of
  \<^verbatim>\<open>ghostty/Vendor/include/ghostty.h\<close>; every other line is one of the three lines of
  the include guard on \<^verbatim>\<open>Ghostty_header_h\<close>, a comment, or blank (fourteen lines are
  comments or blank).
\<close>

theorem single_import_guard_and_comments:
  "filter is_inclusion Ghostty_header_directives = [Import ''ghostty/Vendor/include/ghostty.h'']
   \<and> filter (\<lambda>x. \<not> is_inclusion x \<and> \<not> is_remark x) Ghostty_header_directives =
       [Ifndef ''Ghostty_header_h'', Define ''Ghostty_header_h'' [], Endif]
   \<and> length (filter is_remark Ghostty_header_directives) = 14
   \<and> length Ghostty_header_directives = 18"
  by (simp add: Ghostty_header_parsed)


text \<open>
  C9. The file's own comments say that it is excluded from Package.swift and may not be
  in use (line 14), and that the correct path is now
  \<^verbatim>\<open>ghostty/Vendor/include/ghostty.h\<close> (line 15), which is the path the directive on
  line 16 imports.
\<close>

theorem comments_document_exclusion_and_path:
  "Ghostty_header_directives ! 13 =
     Comment '' NOTE: This file is excluded from Package.swift and may not be in use.''
   \<and> Ghostty_header_directives ! 14 =
       Comment ('' The correct path is now '' @ ''ghostty/Vendor/include/ghostty.h'')
   \<and> Ghostty_header_directives ! 15 = Import ''ghostty/Vendor/include/ghostty.h''"
  by (simp add: Ghostty_header_parsed)

lemma open_external:
  "p \<noteq> ''Ghostty-header.h'' \<Longrightarrow> open_file d p s = Inr (s\<lparr>trace := trace s @ [Opened p]\<rparr>)"
  by (simp add: repository_file_def)

lemma include_reopens:
  "p \<noteq> ''Ghostty-header.h'' \<Longrightarrow> p \<notin> set (imported s) \<Longrightarrow>
   exec d [Include p, Include p] [] s = Inr (s\<lparr>trace := trace s @ [Opened p, Opened p]\<rparr>)"
  by (simp add: active_def open_external del: open_file.simps)

lemma import_does_not_reopen:
  "p \<noteq> ''Ghostty-header.h'' \<Longrightarrow> p \<notin> set (imported s) \<Longrightarrow> Opened p \<notin> set (trace s) \<Longrightarrow>
   exec d [Import p, Import p] [] s =
     Inr (s\<lparr>imported := imported s @ [p], trace := trace s @ [Opened p]\<rparr>)"
  by (simp add: active_def open_external mark_once_def del: open_file.simps)

subsection \<open>Translation units used as examples\<close>

lemma read_header_then_vt:
  \<open>preprocess d [''#include "Ghostty-header.h"'', ''#include "ghostty/vt.h"''] s =
     exec d [Include ''Ghostty-header.h'', Include ''ghostty/vt.h''] [] s\<close>
proof -
  let ?t = \<open>concat (map (\<lambda>l. l @ eol)
              [''#include "Ghostty-header.h"'', ''#include "ghostty/vt.h"''])\<close>
  have "directives_of ?t = [Include ''Ghostty-header.h'', Include ''ghostty/vt.h'']"
    by code_simp
  moreover have "\<not> unterminated_comment ?t"
    by code_simp
  ultimately show ?thesis
    by (simp add: preprocess_def Let_def)
qed

lemma read_header_alone:
  \<open>preprocess d [''#include "Ghostty-header.h"''] s =
     exec d [Include ''Ghostty-header.h''] [] s\<close>
proof -
  let ?t = \<open>concat (map (\<lambda>l. l @ eol) [''#include "Ghostty-header.h"''])\<close>
  have "directives_of ?t = [Include ''Ghostty-header.h'']"
    by code_simp
  moreover have "\<not> unterminated_comment ?t"
    by code_simp
  ultimately show ?thesis
    by (simp add: preprocess_def Let_def)
qed


lemma read_umbrella_twice_then_header:
  \<open>preprocess d
     [''#include "ghostty/Vendor/include/ghostty.h"'',
      ''#include "ghostty/Vendor/include/ghostty.h"'',
      ''#include "Ghostty-header.h"''] s =
     exec d [Include ''ghostty/Vendor/include/ghostty.h'',
             Include ''ghostty/Vendor/include/ghostty.h'',
             Include ''Ghostty-header.h''] [] s\<close>
proof -
  let ?t = \<open>concat (map (\<lambda>l. l @ eol)
              [''#include "ghostty/Vendor/include/ghostty.h"'',
               ''#include "ghostty/Vendor/include/ghostty.h"'',
               ''#include "Ghostty-header.h"''])\<close>
  have "directives_of ?t =
      [Include ''ghostty/Vendor/include/ghostty.h'',
       Include ''ghostty/Vendor/include/ghostty.h'',
       Include ''Ghostty-header.h'']"
    by code_simp
  moreover have "\<not> unterminated_comment ?t"
    by code_simp
  ultimately show ?thesis
    by (simp add: preprocess_def Let_def)
qed

text \<open>
  Comments and line continuations are read as the preprocessor reads them: a directive
  inside a block comment is none, a directive may follow a block comment or be continued
  on the next line, and a comment left open is an error.
\<close>

lemma comments_and_continuations:
  \<open>directives_of (concat (map (\<lambda>l. l @ eol)
      [''/*'', ''#include "Ghostty-header.h"'', ''*/''])) = [Blank]\<close>
  \<open>directives_of (concat (map (\<lambda>l. l @ eol) [''/**/#undef Ghostty_header_h''])) =
     [Undef ''Ghostty_header_h'']\<close>
  \<open>directives_of (concat (map (\<lambda>l. l @ eol) [''#undef '' @ [CHR 0x5C], ''Ghostty_header_h // again''])) =
     [Undef ''Ghostty_header_h'']\<close>
  \<open>directives_of (concat (map (\<lambda>l. l @ eol)
      [''#define S "/*" /* the text of S */''])) = [Define ''S'' [CHR 0x22, CHR ''/'', CHR ''*'', CHR 0x22]]\<close>
  \<open>unterminated_comment (concat (map (\<lambda>l. l @ eol) [''/*'', ''#include "x.h"'']))\<close>
  by code_simp+

section \<open>Claims about preprocessing the header\<close>

text \<open>
  C5. No line of the file is C code: none declares a function, a type or a variable or
  is a statement (and none is a directive the preprocessor rejects). Entering the header
  always succeeds and hands no line to the compiler, from any state and at any depth of
  nesting, so the file itself contributes nothing to the compiled program.
\<close>

theorem header_has_no_code:
  "filter is_code Ghostty_header_directives = []
   \<and> (\<exists>s'. open_file (Suc d) ''Ghostty-header.h'' s = Inr s' \<and> emitted s' = emitted s)"
  by (simp add: Ghostty_header_parsed enter_header mark_once_def del: open_file.simps)

text \<open>
  C7. Entering the header changes the state in these ways only: the guard macro
  \<^verbatim>\<open>Ghostty_header_h\<close> becomes defined, with empty replacement text, if it was not
  defined; the imported file is marked once-only and opened (if the guard was not
  defined); the trace records these events. Every other macro keeps its definition,
  nothing is handed to the compiler, and the only definition directive in the file is
  the one of the guard macro.
\<close>

theorem inclusion_frame:
  "\<exists>s'. open_file (Suc d) ''Ghostty-header.h'' s = Inr s'
     \<and> macros s' =
         (if macros s ''Ghostty_header_h'' = None
          then (macros s)(''Ghostty_header_h'' \<mapsto> []) else macros s)
     \<and> imported s' =
         (if macros s ''Ghostty_header_h'' = None
             \<and> ''ghostty/Vendor/include/ghostty.h'' \<notin> set (imported s)
          then imported s @ [''ghostty/Vendor/include/ghostty.h''] else imported s)
     \<and> emitted s' = emitted s
     \<and> trace s' =
         trace s @ Opened ''Ghostty-header.h''
           # (if macros s ''Ghostty_header_h'' = None
              then Defined ''Ghostty_header_h''
                # (if Opened ''ghostty/Vendor/include/ghostty.h'' \<in> set (trace s) then []
                   else [Opened ''ghostty/Vendor/include/ghostty.h''])
              else [])
     \<and> filter is_definition Ghostty_header_directives = [Define ''Ghostty_header_h'' []]"
  by (simp add: Ghostty_header_parsed enter_header mark_once_def del: open_file.simps)

text \<open>
  C1, as the code has it. The file's only inclusion directive names
  \<^verbatim>\<open>ghostty/Vendor/include/ghostty.h\<close>. Whatever macros the build configuration defines,
  entering the header opens, besides the header itself, exactly that file when the guard
  macro is not yet defined and the file has not been opened before, and no file
  otherwise; it never opens \<^verbatim>\<open>ghostty/vt.h\<close>.
\<close>

theorem header_opens_only_umbrella:
  "filter is_inclusion Ghostty_header_directives = [Import ''ghostty/Vendor/include/ghostty.h'']
   \<and> (\<exists>s'. open_file (Suc d) ''Ghostty-header.h'' s = Inr s'
         \<and> opened (new_events s s') =
             ''Ghostty-header.h''
               # (if macros s ''Ghostty_header_h'' = None
                     \<and> Opened ''ghostty/Vendor/include/ghostty.h'' \<notin> set (trace s)
                  then [''ghostty/Vendor/include/ghostty.h''] else [])
         \<and> ''ghostty/vt.h'' \<notin> set (opened (new_events s s')))"
  by (simp add: Ghostty_header_parsed enter_header mark_once_def new_events_def
      del: open_file.simps)

text \<open>
  C1, as stated, fails. A translation unit that includes this header and then
  \<^verbatim>\<open>ghostty/vt.h\<close> has both candidate headers opened: the header warns against it in a
  comment and has nothing that prevents it. And a build configuration that defines
  \<^verbatim>\<open>Ghostty_header_h\<close> itself gets neither candidate from this header.
\<close>

theorem both_candidates_or_none:
  \<open>\<not> isl (preprocess 200 [''#include "Ghostty-header.h"'', ''#include "ghostty/vt.h"'']
            initial_state)
   \<and> opened (trace (projr (preprocess 200
         [''#include "Ghostty-header.h"'', ''#include "ghostty/vt.h"''] initial_state))) =
       [''Ghostty-header.h'', ''ghostty/Vendor/include/ghostty.h'', ''ghostty/vt.h'']
   \<and> opened (trace (projr (preprocess 200 [''#include "Ghostty-header.h"'']
         (initial_state\<lparr>macros := [''Ghostty_header_h'' \<mapsto> ''1'']\<rparr>)))) =
       [''Ghostty-header.h'']\<close>
  using enter_header [of 199]
  by (simp add: read_header_then_vt read_header_alone open_external
      initial_state_def active_def mark_once_def del: open_file.simps)


section \<open>Translation units that include the header several times\<close>







section \<open>The once-only import\<close>

lemma open_file_marked:
  assumes "''ghostty/Vendor/include/ghostty.h'' \<in> set (imported s)"
    and "Opened ''ghostty/Vendor/include/ghostty.h'' \<in> set (trace s)"
    and "p \<noteq> ''ghostty/Vendor/include/ghostty.h''"
  shows "\<exists>s1. open_file (Suc d) p s = Inr s1
           \<and> ''ghostty/Vendor/include/ghostty.h'' \<in> set (imported s1)
           \<and> Opened ''ghostty/Vendor/include/ghostty.h'' \<in> set (trace s1)
           \<and> count_list (trace s1) (Opened ''ghostty/Vendor/include/ghostty.h'') =
               count_list (trace s) (Opened ''ghostty/Vendor/include/ghostty.h'')"
proof (cases "p = ''Ghostty-header.h''")
  case True
  then show ?thesis
    using assms by (simp add: enter_header mark_once_def del: open_file.simps)
next
  case False
  then show ?thesis
    using assms by (simp add: open_external del: open_file.simps)
qed

lemma exec_never_reopens:
  assumes "exec (Suc d) ds st s = Inr s'"
    and "''ghostty/Vendor/include/ghostty.h'' \<in> set (imported s)"
    and "Opened ''ghostty/Vendor/include/ghostty.h'' \<in> set (trace s)"
  shows "count_list (trace s') (Opened ''ghostty/Vendor/include/ghostty.h'') =
           count_list (trace s) (Opened ''ghostty/Vendor/include/ghostty.h'')"
  using assms
proof (induction ds arbitrary: st s)
  case Nil
  then show ?case
    by (simp split: if_splits)
next
  case (Cons x ds)
  note marked = Cons.prems(2) and seen = Cons.prems(3)
  have continue: ?case
    if run: "exec (Suc d) ds st' s0 = Inr s'"
      and kept: "''ghostty/Vendor/include/ghostty.h'' \<in> set (imported s0)"
        "Opened ''ghostty/Vendor/include/ghostty.h'' \<in> set (trace s0)"
        "count_list (trace s0) (Opened ''ghostty/Vendor/include/ghostty.h'') =
           count_list (trace s) (Opened ''ghostty/Vendor/include/ghostty.h'')"
    for st' s0
    using Cons.IH [OF run kept(1,2)] kept(3) by simp
  show ?case
  proof (cases x)
    case (Include p)
    show ?thesis
    proof (cases "active st \<and> p \<notin> set (imported s)")
      case True
      with marked have "p \<noteq> ''ghostty/Vendor/include/ghostty.h''"
        by auto
      from open_file_marked [OF marked seen this, of d] obtain s1 where
        entered: "open_file (Suc d) p s = Inr s1"
        and kept: "''ghostty/Vendor/include/ghostty.h'' \<in> set (imported s1)"
          "Opened ''ghostty/Vendor/include/ghostty.h'' \<in> set (trace s1)"
          "count_list (trace s1) (Opened ''ghostty/Vendor/include/ghostty.h'') =
             count_list (trace s) (Opened ''ghostty/Vendor/include/ghostty.h'')"
        by blast
      from Cons.prems(1) Include True entered have "exec (Suc d) ds st s1 = Inr s'"
        by (simp del: open_file.simps)
      from continue [OF this kept] show ?thesis .
    next
      case False
      with Cons.prems(1) Include have "exec (Suc d) ds st s = Inr s'"
        by (simp del: open_file.simps)
      from continue [OF this marked seen] show ?thesis
        by simp
    qed
  next
    case (Import p)
    let ?s0 = "mark_once p s"
    have kept0: "''ghostty/Vendor/include/ghostty.h'' \<in> set (imported ?s0)"
      "Opened ''ghostty/Vendor/include/ghostty.h'' \<in> set (trace ?s0)"
      "count_list (trace ?s0) (Opened ''ghostty/Vendor/include/ghostty.h'') =
         count_list (trace s) (Opened ''ghostty/Vendor/include/ghostty.h'')"
      using marked seen by (simp_all add: mark_once_def)
    show ?thesis
    proof (cases "active st")
      case True
      show ?thesis
      proof (cases "Opened p \<in> set (trace s)")
        case True
        with Cons.prems(1) Import \<open>active st\<close> have "exec (Suc d) ds st ?s0 = Inr s'"
          by (simp del: open_file.simps)
        from continue [OF this kept0] show ?thesis .
      next
        case False
        with seen have "p \<noteq> ''ghostty/Vendor/include/ghostty.h''"
          by auto
        from open_file_marked [OF kept0(1,2) this, of d] obtain s1 where
          entered: "open_file (Suc d) p ?s0 = Inr s1"
          and kept: "''ghostty/Vendor/include/ghostty.h'' \<in> set (imported s1)"
            "Opened ''ghostty/Vendor/include/ghostty.h'' \<in> set (trace s1)"
            "count_list (trace s1) (Opened ''ghostty/Vendor/include/ghostty.h'') =
               count_list (trace ?s0) (Opened ''ghostty/Vendor/include/ghostty.h'')"
          by blast
        from Cons.prems(1) Import \<open>active st\<close> False entered
        have "exec (Suc d) ds st s1 = Inr s'"
          by (simp del: open_file.simps)
        from continue [OF this kept(1,2)] kept(3) kept0(3) show ?thesis
          by simp
      qed
    next
      case False
      with Cons.prems(1) Import have "exec (Suc d) ds st s = Inr s'"
        by (simp del: open_file.simps)
      from continue [OF this marked seen] show ?thesis
        by simp
    qed
  next
    case (Define m b)
    let ?s1 = "if active st then define_macro m b s else s"
    from Cons.prems(1) Define have "exec (Suc d) ds st ?s1 = Inr s'"
      by simp
    from continue [OF this] marked seen show ?thesis
      by (simp add: define_macro_def split: if_splits)
  next
    case (Undef m)
    let ?s1 = "if active st then undef_macro m s else s"
    from Cons.prems(1) Undef have "exec (Suc d) ds st ?s1 = Inr s'"
      by simp
    from continue [OF this] marked seen show ?thesis
      by (simp add: undef_macro_def split: if_splits)
  next
    case (Code t)
    let ?s1 = "if active st then s\<lparr>emitted := emitted s @ [t]\<rparr> else s"
    from Cons.prems(1) Code have "exec (Suc d) ds st ?s1 = Inr s'"
      by simp
    from continue [OF this] marked seen show ?thesis
      by (simp split: if_splits)
  next
    case Endif
    with Cons.prems(1) obtain b st' where "st = b # st'" "exec (Suc d) ds st' s = Inr s'"
      by (cases st) simp_all
    from continue [OF this(2) marked seen] show ?thesis
      by simp
  next
    case (Ifndef m)
    with Cons.prems(1)
    have "exec (Suc d) ds ((active st \<and> macros s m = None) # st) s = Inr s'"
      by simp
    from continue [OF this marked seen] show ?thesis
      by simp
  next
    case (Unknown t)
    with Cons.prems(1) have "exec (Suc d) ds st s = Inr s'"
      by (simp split: if_splits)
    from continue [OF this marked seen] show ?thesis
      by simp
  next
    case Blank
    with Cons.prems(1) have "exec (Suc d) ds st s = Inr s'"
      by simp
    from continue [OF this marked seen] show ?thesis
      by simp
  next
    case (Comment c)
    with Cons.prems(1) have "exec (Suc d) ds st s = Inr s'"
      by simp
    from continue [OF this marked seen] show ?thesis
      by simp
  qed
qed

text \<open>
  C8, as stated, fails. \<^verbatim>\<open>#import\<close> limits nothing that comes before it: a translation
  unit that includes \<^verbatim>\<open>ghostty/Vendor/include/ghostty.h\<close> twice by \<^verbatim>\<open>#include\<close> and
  then includes this header has the vendored header opened twice.
\<close>

theorem umbrella_opened_twice:
  \<open>\<not> isl (preprocess 200
            [''#include "ghostty/Vendor/include/ghostty.h"'',
             ''#include "ghostty/Vendor/include/ghostty.h"'',
             ''#include "Ghostty-header.h"''] initial_state)
   \<and> count_list (trace (projr (preprocess 200
          [''#include "ghostty/Vendor/include/ghostty.h"'',
           ''#include "ghostty/Vendor/include/ghostty.h"'',
           ''#include "Ghostty-header.h"''] initial_state)))
        (Opened ''ghostty/Vendor/include/ghostty.h'') = 2\<close>
  using enter_header [of 199]
  by (simp add: read_umbrella_twice_then_header open_external initial_state_def active_def
      mark_once_def del: open_file.simps)

text \<open>
  C8, as the code has it. The directive on line 16 is \<^verbatim>\<open>#import\<close>, not \<^verbatim>\<open>#include\<close>.
  When the header's content is processed (the guard macro not being defined), the
  vendored header is opened only if the translation unit has not opened it before, and
  it is marked once-only. From then on nothing in the translation unit opens it again,
  whatever follows: not another inclusion of this header with the guard macro
  undefined, and not an \<^verbatim>\<open>#include\<close> or \<^verbatim>\<open>#import\<close> of the vendored header itself.
\<close>

theorem import_is_once_only:
  assumes "macros s ''Ghostty_header_h'' = None"
    and "open_file (Suc d) ''Ghostty-header.h'' s = Inr s1"
    and "exec (Suc d) ds st s1 = Inr s'"
  shows "Ghostty_header_directives ! 15 = Import ''ghostty/Vendor/include/ghostty.h''
    \<and> ''ghostty/Vendor/include/ghostty.h'' \<in> set (imported s1)
    \<and> count_list (trace s1) (Opened ''ghostty/Vendor/include/ghostty.h'') =
        count_list (trace s) (Opened ''ghostty/Vendor/include/ghostty.h'')
          + (if Opened ''ghostty/Vendor/include/ghostty.h'' \<in> set (trace s) then 0 else 1)
    \<and> count_list (trace s') (Opened ''ghostty/Vendor/include/ghostty.h'') =
        count_list (trace s1) (Opened ''ghostty/Vendor/include/ghostty.h'')"
proof -
  from assms(1,2) have s1: "''ghostty/Vendor/include/ghostty.h'' \<in> set (imported s1)"
    "Opened ''ghostty/Vendor/include/ghostty.h'' \<in> set (trace s1)"
    "count_list (trace s1) (Opened ''ghostty/Vendor/include/ghostty.h'') =
       count_list (trace s) (Opened ''ghostty/Vendor/include/ghostty.h'')
         + (if Opened ''ghostty/Vendor/include/ghostty.h'' \<in> set (trace s) then 0 else 1)"
    by (auto simp: enter_header mark_once_def simp del: open_file.simps)
  from exec_never_reopens [OF assms(3) s1(1,2)] s1 show ?thesis
    by (simp add: Ghostty_header_parsed)
qed

theorem import_is_once_only_witness:
  "macros initial_state ''Ghostty_header_h'' = None
   \<and> \<not> isl (open_file 200 ''Ghostty-header.h'' initial_state)
   \<and> \<not> isl (exec 200
        [Undef ''Ghostty_header_h'', Include ''Ghostty-header.h'',
         Include ''ghostty/Vendor/include/ghostty.h'',
         Import ''ghostty/Vendor/include/ghostty.h''] []
        (projr (open_file 200 ''Ghostty-header.h'' initial_state)))
   \<and> ''ghostty/Vendor/include/ghostty.h''
       \<in> set (imported (projr (open_file 200 ''Ghostty-header.h'' initial_state)))
   \<and> count_list (trace (projr (open_file 200 ''Ghostty-header.h'' initial_state)))
        (Opened ''ghostty/Vendor/include/ghostty.h'') = 1
   \<and> count_list (trace (projr (exec 200
        [Undef ''Ghostty_header_h'', Include ''Ghostty-header.h'',
         Include ''ghostty/Vendor/include/ghostty.h'',
         Import ''ghostty/Vendor/include/ghostty.h''] []
        (projr (open_file 200 ''Ghostty-header.h'' initial_state)))))
        (Opened ''ghostty/Vendor/include/ghostty.h'') = 1
   \<and> count_list (trace (projr (exec 200
        [Undef ''Ghostty_header_h'', Include ''Ghostty-header.h'',
         Include ''ghostty/Vendor/include/ghostty.h'',
         Import ''ghostty/Vendor/include/ghostty.h''] []
        (projr (open_file 200 ''Ghostty-header.h'' initial_state)))))
        (Defined ''Ghostty_header_h'') = 2"
proof -
  let ?ds = "[Undef ''Ghostty_header_h'', Include ''Ghostty-header.h'',
              Include ''ghostty/Vendor/include/ghostty.h'',
              Import ''ghostty/Vendor/include/ghostty.h'']"
  let ?r1 = "open_file 200 ''Ghostty-header.h'' initial_state"
  let ?r = "exec 200 ?ds [] (projr ?r1)"
  have a: "macros initial_state ''Ghostty_header_h'' = None"
    by (simp add: initial_state_def)
  have b: "\<not> isl ?r1"
    using enter_header [of 199] by (simp del: open_file.simps)
  have c: "\<not> isl ?r"
    and twice: "count_list (trace (projr ?r)) (Defined ''Ghostty_header_h'') = 2"
    using enter_header [of 199]
    by (simp_all add: initial_state_def active_def mark_once_def undef_macro_def
        open_external del: open_file.simps)
  from b have entered: "open_file (Suc 199) ''Ghostty-header.h'' initial_state = Inr (projr ?r1)"
    by (cases ?r1) simp_all
  from c have run: "exec (Suc 199) ?ds [] (projr ?r1) = Inr (projr ?r)"
    by (cases ?r) simp_all
  from import_is_once_only [OF a entered run] a b c twice show ?thesis
    by (simp add: initial_state_def)
qed

end
